theory Spec2Isabelle
  imports Main "HOL-Library.Multiset"
begin

section \<open>Data model of \<^verbatim>\<open>src/signal_closure.cpp\<close>\<close>

subsection \<open>Introspection metadata\<close>

text \<open>
  A \<^verbatim>\<open>GType\<close> is an unsigned machine word used only as a lookup key; no arithmetic is
  done on it, so it is a natural number here.
\<close>

type_synonym gtype = nat

text \<open>The variants of a \<^verbatim>\<open>GIBaseInfo\<close> (the \<^verbatim>\<open>GIInfoType\<close> enumeration).\<close>

datatype gi_info_type =
    GI_INFO_TYPE_INVALID
  | GI_INFO_TYPE_FUNCTION
  | GI_INFO_TYPE_CALLBACK
  | GI_INFO_TYPE_STRUCT
  | GI_INFO_TYPE_BOXED
  | GI_INFO_TYPE_ENUM
  | GI_INFO_TYPE_FLAGS
  | GI_INFO_TYPE_OBJECT
  | GI_INFO_TYPE_INTERFACE
  | GI_INFO_TYPE_CONSTANT
  | GI_INFO_TYPE_UNION
  | GI_INFO_TYPE_UNRESOLVED

text \<open>The tags of a \<^verbatim>\<open>GITypeInfo\<close> (the \<^verbatim>\<open>GITypeTag\<close> enumeration).\<close>

datatype gi_type_tag =
    GI_TYPE_TAG_VOID
  | GI_TYPE_TAG_BOOLEAN
  | GI_TYPE_TAG_INT8
  | GI_TYPE_TAG_UINT8
  | GI_TYPE_TAG_INT16
  | GI_TYPE_TAG_UINT16
  | GI_TYPE_TAG_INT32
  | GI_TYPE_TAG_UINT32
  | GI_TYPE_TAG_INT64
  | GI_TYPE_TAG_UINT64
  | GI_TYPE_TAG_FLOAT
  | GI_TYPE_TAG_DOUBLE
  | GI_TYPE_TAG_GTYPE
  | GI_TYPE_TAG_UTF8
  | GI_TYPE_TAG_FILENAME
  | GI_TYPE_TAG_ARRAY
  | GI_TYPE_TAG_INTERFACE
  | GI_TYPE_TAG_GLIST
  | GI_TYPE_TAG_GSLIST
  | GI_TYPE_TAG_GHASH
  | GI_TYPE_TAG_ERROR
  | GI_TYPE_TAG_UNICHAR

record gi_type_info =
  type_tag :: gi_type_tag
  is_pointer :: bool

record gi_arg_info =
  arg_name :: string
  arg_type :: gi_type_info

text \<open>
  A \<^verbatim>\<open>GISignalInfo\<close> is a callable: an ordered sequence of parameter descriptors and
  one return type descriptor.
\<close>

record gi_signal_info =
  signal_name :: string
  callable_args :: "gi_arg_info list"
  return_type :: gi_type_info

text \<open>
  A \<^verbatim>\<open>GIBaseInfo\<close> as the repository hands it out for a registered type: its variant
  and, for the variants that have one, its signal table in declaration order.
\<close>

record gi_base_info =
  info_type :: gi_info_type
  signals :: "gi_signal_info list"

text \<open>
  Every introspection handle is reference counted through the one entry point
  \<^verbatim>\<open>g_base_info_unref\<close>; \<open>info\<close> is the sum of the handle types that reach it here.
\<close>

datatype info =
    BaseInfo gi_base_info
  | SignalInfo gi_signal_info
  | ArgInfo gi_arg_info
  | TypeInfo gi_type_info

definition is_void :: "gi_type_info \<Rightarrow> bool" where
  "is_void t = (type_tag t = GI_TYPE_TAG_VOID \<and> \<not> is_pointer t)"

subsection \<open>Native and dynamic values\<close>

text \<open>
  A \<^verbatim>\<open>GValue\<close> carries its \<^verbatim>\<open>g_type\<close> and a payload; the payload is opaque to this file
  (only the conversion primitives read or write it).
\<close>

record gvalue =
  g_type :: gtype
  g_data :: int

text \<open>
  Dynamic (JavaScript) values. A \<^verbatim>\<open>Local<Value>\<close> or \<^verbatim>\<open>MaybeLocal<Value>\<close> handle is a
  \<open>js_value option\<close>: \<open>None\<close> is the empty handle. A function object is known by its
  identity.
\<close>

datatype js_value =
    JsUndefined
  | JsNull
  | JsBoolean bool
  | JsNumber int
  | JsString string
  | JsObject nat

type_synonym js_function = nat

type_synonym local_value = "js_value option"

subsection \<open>The collaborators the file calls\<close>

text \<open>
  The introspection repository, the two conversion primitives of \<^verbatim>\<open>values.h\<close>
  (\<^verbatim>\<open>GIRValue::from_g_value\<close>, \<^verbatim>\<open>GIRValue::to_g_value\<close>), the call primitive \<^verbatim>\<open>Nan::Call\<close> and
  the current context's global object are not defined in the file: they are parameters.
  \<open>to_g_value\<close> returns its success flag together with the contents it leaves in the
  slot it was handed. \<^verbatim>\<open>Nan::GetCurrentContext()->Global()\<close> is a \<^verbatim>\<open>Local<Object>\<close>: the
  environment gives the identity of that object, and the value passed on is always an
  object.
\<close>

record env =
  irepository :: "gtype \<Rightarrow> gi_base_info option"
  from_g_value :: "gvalue \<Rightarrow> gi_type_info \<Rightarrow> local_value"
  to_g_value :: "js_value \<Rightarrow> gtype \<Rightarrow> gvalue \<Rightarrow> bool \<times> gvalue"
  js_call :: "js_function \<Rightarrow> js_value \<Rightarrow> local_value list \<Rightarrow> local_value"
  global_object :: nat

text \<open>
  What the dynamic side observes of a marshal call, in order: each conversion request,
  the callback invocation with its receiver and arguments, and each error reported
  through \<^verbatim>\<open>Nan::ThrowError\<close>.
\<close>

datatype event =
    FromGValue gvalue gi_type_info
  | Call js_function js_value "local_value list"
  | ToGValue js_value gtype
  | ThrowError string

subsection \<open>The closure and the resources it owns\<close>

datatype hook = Closure_marshal | Finalize_handler

text \<open>
  \<^verbatim>\<open>GIRSignalClosure\<close>: the \<^verbatim>\<open>GClosure\<close> header (its marshaller and finalize notifiers)
  followed by the two private fields.
\<close>

record gir_signal_closure =
  marshal :: "hook option"
  finalize_notifiers :: "hook list"
  callback :: js_function
  signal_info :: gi_signal_info

text \<open>
  The resources the file acquires and releases: the introspection references it
  currently holds (one list entry per reference), the closure storage it has allocated,
  the persistent function handles that are alive, and the trace of events.
\<close>

record state =
  held_infos :: "info list"
  closures :: "gir_signal_closure list"
  persistents :: "js_function list"
  trace :: "event list"

text \<open>
  What a marshal call ends in: it returns, leaving the caller's return slot (\<open>None\<close> when
  the caller passed a null pointer) with some contents, or it reaches a read outside an
  array or through a null pointer.
\<close>

datatype fault = ArrayOverrun | NullDereference

datatype outcome = Returned "gvalue option" | Faulted fault

section \<open>The introspection library calls\<close>

text \<open>
  Each getter returns a new reference that the caller owns; \<^verbatim>\<open>g_base_info_unref\<close> gives
  one back.
\<close>

definition g_base_info_unref :: "info \<Rightarrow> state \<Rightarrow> state" where
  "g_base_info_unref i st = st\<lparr>held_infos := remove1 i (held_infos st)\<rparr>"

definition g_irepository_find_by_gtype ::
    "env \<Rightarrow> gtype \<Rightarrow> state \<Rightarrow> gi_base_info option \<times> state" where
  "g_irepository_find_by_gtype e t st =
     (case irepository e t of
        None \<Rightarrow> (None, st)
      | Some b \<Rightarrow> (Some b, st\<lparr>held_infos := BaseInfo b # held_infos st\<rparr>))"

abbreviation GI_IS_OBJECT_INFO :: "gi_base_info \<Rightarrow> bool" where
  "GI_IS_OBJECT_INFO b \<equiv> info_type b = GI_INFO_TYPE_OBJECT"

abbreviation GI_IS_INTERFACE_INFO :: "gi_base_info \<Rightarrow> bool" where
  "GI_IS_INTERFACE_INFO b \<equiv> info_type b = GI_INFO_TYPE_INTERFACE"

text \<open>
  \<^verbatim>\<open>g_object_info_find_signal\<close> and \<^verbatim>\<open>g_interface_info_find_signal\<close> walk the signal
  table in order and return the first entry of that name.
\<close>

definition find_signal ::
    "gi_base_info \<Rightarrow> string \<Rightarrow> state \<Rightarrow> gi_signal_info option \<times> state" where
  "find_signal b name st =
     (case find (\<lambda>s. signal_name s = name) (signals b) of
        None \<Rightarrow> (None, st)
      | Some s \<Rightarrow> (Some s, st\<lparr>held_infos := SignalInfo s # held_infos st\<rparr>))"

definition g_object_info_find_signal ::
    "gi_base_info \<Rightarrow> string \<Rightarrow> state \<Rightarrow> gi_signal_info option \<times> state" where
  "g_object_info_find_signal = find_signal"

definition g_interface_info_find_signal ::
    "gi_base_info \<Rightarrow> string \<Rightarrow> state \<Rightarrow> gi_signal_info option \<times> state" where
  "g_interface_info_find_signal = find_signal"

text \<open>
  \<^verbatim>\<open>g_callable_info_get_arg\<close> does no bounds check: an index at or past the number of
  declared parameters reads outside the descriptor array. That read is the \<open>None\<close> here.
\<close>

definition g_callable_info_get_arg ::
    "gi_signal_info \<Rightarrow> nat \<Rightarrow> state \<Rightarrow> gi_arg_info option \<times> state" where
  "g_callable_info_get_arg s i st =
     (if i < length (callable_args s)
      then (Some (callable_args s ! i),
            st\<lparr>held_infos := ArgInfo (callable_args s ! i) # held_infos st\<rparr>)
      else (None, st))"

definition g_arg_info_get_type :: "gi_arg_info \<Rightarrow> state \<Rightarrow> gi_type_info \<times> state" where
  "g_arg_info_get_type a st =
     (arg_type a, st\<lparr>held_infos := TypeInfo (arg_type a) # held_infos st\<rparr>)"

section \<open>The functions of the file\<close>

subsection \<open>\<^verbatim>\<open>GIRSignalClosure::get_signal\<close>\<close>

definition get_signal ::
    "env \<Rightarrow> gtype \<Rightarrow> string \<Rightarrow> state \<Rightarrow> gi_signal_info option \<times> state" where
  "get_signal e signal_g_type name st =
     (case g_irepository_find_by_gtype e signal_g_type st of
        (None, st1) \<Rightarrow> (None, st1)
      | (Some target_info, st1) \<Rightarrow>
          (case (if GI_IS_OBJECT_INFO target_info
                 then g_object_info_find_signal target_info name st1
                 else if GI_IS_INTERFACE_INFO target_info
                 then g_interface_info_find_signal target_info name st1
                 else (None, st1)) of
             (found, st2) \<Rightarrow> (found, g_base_info_unref (BaseInfo target_info) st2)))"

subsection \<open>\<^verbatim>\<open>GIRSignalClosure::create\<close>\<close>

text \<open>
  The instance is a \<^verbatim>\<open>GIRObject *\<close>; its class is declared elsewhere, so its type is a
  parameter. The closure storage comes from \<^verbatim>\<open>g_closure_new_simple\<close>, then the finalize
  notifier and the marshaller are registered and the two private fields assigned; the
  persistent handle made from the callback is alive from then on.
\<close>

definition create ::
    "env \<Rightarrow> 'i \<Rightarrow> gtype \<Rightarrow> string \<Rightarrow> js_function \<Rightarrow> state
       \<Rightarrow> gir_signal_closure option \<times> state" where
  "create e inst signal_g_type name cb st =
     (case get_signal e signal_g_type name st of
        (None, st1) \<Rightarrow> (None, st1)
      | (Some sig, st1) \<Rightarrow>
          (let closure = \<lparr>marshal = Some Closure_marshal,
                          finalize_notifiers = [Finalize_handler],
                          callback = cb,
                          signal_info = sig\<rparr>
           in (Some closure,
               st1\<lparr>closures := closure # closures st1,
                   persistents := cb # persistents st1\<rparr>)))"

subsection \<open>\<^verbatim>\<open>GIRSignalClosure::closure_marshal\<close>\<close>

text \<open>
  The argument loop, from index \<open>i\<close>. The parameter array and its count arrive together
  as the list \<open>param_values\<close>. The two introspection handles of an iteration are released
  after the conversion; the converted value is stored at index \<open>i\<close> of \<open>callback_argv\<close>.
\<close>

function marshal_args ::
    "env \<Rightarrow> gir_signal_closure \<Rightarrow> gvalue list \<Rightarrow> nat \<Rightarrow> local_value list \<Rightarrow> state
       \<Rightarrow> (fault + local_value list) \<times> state" where
  "marshal_args e c param_values i callback_argv st =
     (if i < length param_values then
        (let native_param = param_values ! i in
         case g_callable_info_get_arg (signal_info c) i st of
           (None, st1) \<Rightarrow> (Inl ArrayOverrun, st1)
         | (Some arg_info, st1) \<Rightarrow>
             (case g_arg_info_get_type arg_info st1 of
                (type_info, st2) \<Rightarrow>
                  (let js_param = from_g_value e native_param type_info;
                       st3 = st2\<lparr>trace := trace st2 @ [FromGValue native_param type_info]\<rparr>;
                       st4 = g_base_info_unref (ArgInfo arg_info) st3;
                       st5 = g_base_info_unref (TypeInfo type_info) st4
                   in marshal_args e c param_values (Suc i)
                        (callback_argv[i := js_param]) st5)))
      else (Inr callback_argv, st))"
  by pat_completeness auto
termination
  by (relation "measure (\<lambda>(e, c, param_values, i, callback_argv, st). length param_values - i)")
     auto

declare marshal_args.simps [simp del]

text \<open>
  The marshaller. \<open>return_value\<close> is the pointer to the caller's return slot. When the
  callback gives nothing usable, the source assigns null to its own copy of that
  pointer and returns: the caller's slot is as before. The invocation hint and the
  marshal data are never read and are left out. The type handed to \<open>to_g_value\<close> is
  read through the pointer (\<^verbatim>\<open>G_VALUE_TYPE\<close>), which a null pointer does not survive.
\<close>

definition closure_marshal ::
    "env \<Rightarrow> gir_signal_closure \<Rightarrow> gvalue option \<Rightarrow> gvalue list \<Rightarrow> state
       \<Rightarrow> outcome \<times> state" where
  "closure_marshal e c return_value param_values st =
     (case marshal_args e c param_values 0
             (replicate (length param_values) None) st of
        (Inl f, st1) \<Rightarrow> (Faulted f, st1)
      | (Inr callback_argv, st1) \<Rightarrow>
          (let local_callback = callback c;
               receiver = JsObject (global_object e);
               maybe_result = js_call e local_callback receiver callback_argv;
               st2 = st1\<lparr>trace := trace st1 @ [Call local_callback receiver callback_argv]\<rparr>
           in case maybe_result of
                None \<Rightarrow> (Returned return_value, st2)
              | Some result \<Rightarrow>
                  if result = JsNull \<or> result = JsUndefined
                  then (Returned return_value, st2)
                  else (case return_value of
                          None \<Rightarrow> (Faulted NullDereference, st2)
                        | Some slot \<Rightarrow>
                            (case to_g_value e result (g_type slot) slot of
                               (ok, slot') \<Rightarrow>
                                 (let st3 = st2\<lparr>trace := trace st2 @
                                              [ToGValue result (g_type slot)]\<rparr>
                                  in if \<not> ok
                                     then (Returned (Some slot'),
                                           st3\<lparr>trace := trace st3 @
                                             [ThrowError ''cannot convert return value of callback to a GI type'']\<rparr>)
                                     else (Returned (Some slot'), st3))))))"

subsection \<open>\<^verbatim>\<open>GIRSignalClosure::finalize_handler\<close>\<close>

definition finalize_handler :: "gir_signal_closure \<Rightarrow> state \<Rightarrow> state" where
  "finalize_handler c st =
     (let st1 = g_base_info_unref (SignalInfo (signal_info c)) st
      in st1\<lparr>persistents := remove1 (callback c) (persistents st1)\<rparr>)"

section \<open>Vocabulary of the properties\<close>

text \<open>
  The conversion requests a marshal call makes for its parameters, and the dynamic
  values they yield: the native values paired by position with the descriptor's
  parameter types.
\<close>

definition conversions :: "gir_signal_closure \<Rightarrow> gvalue list \<Rightarrow> event list" where
  "conversions c param_values =
     map (\<lambda>(v, a). FromGValue v (arg_type a))
       (zip param_values (callable_args (signal_info c)))"

definition converted :: "env \<Rightarrow> gir_signal_closure \<Rightarrow> gvalue list \<Rightarrow> local_value list" where
  "converted e c param_values =
     map (\<lambda>(v, a). from_g_value e v (arg_type a))
       (zip param_values (callable_args (signal_info c)))"

text \<open>The events of the return phase, and the receivers of the invocations in a trace.\<close>

fun return_phase :: "event \<Rightarrow> bool" where
  "return_phase (ToGValue r t) = True"
| "return_phase (ThrowError m) = True"
| "return_phase (FromGValue v t) = False"
| "return_phase (Call f r a) = False"

fun receivers :: "event list \<Rightarrow> js_value list" where
  "receivers [] = []"
| "receivers (Call f r a # es) = r # receivers es"
| "receivers (FromGValue v t # es) = receivers es"
| "receivers (ToGValue r t # es) = receivers es"
| "receivers (ThrowError m # es) = receivers es"

text \<open>
  The empty receiver binding of a call, in the words of the source comment on the
  invocation: \<^verbatim>\<open>this\<close> set to \<^verbatim>\<open>undefined\<close>.
\<close>

definition empty_receiver :: "js_value \<Rightarrow> bool" where
  "empty_receiver r = (r = JsUndefined)"

text \<open>A closure owns its two resources in a state that holds them.\<close>

definition owns :: "gir_signal_closure \<Rightarrow> state \<Rightarrow> bool" where
  "owns c st =
     (SignalInfo (signal_info c) \<in> set (held_infos st) \<and> callback c \<in> set (persistents st))"

section \<open>A sample repository and environment\<close>

text \<open>
  Type 1 is an object with the signal \<open>activate(int32) \<rightarrow> void\<close>, type 2 an interface
  with the signal \<open>compute() \<rightarrow> int32\<close>, type 3 a struct; no other type is registered.
  Callback 0 returns undefined, callback 1 returns the number 7, every other callback a
  string. The conversions carry integers over and refuse everything else.
\<close>

definition int32_type :: gi_type_info where
  "int32_type = \<lparr>type_tag = GI_TYPE_TAG_INT32, is_pointer = False\<rparr>"

definition void_type :: gi_type_info where
  "void_type = \<lparr>type_tag = GI_TYPE_TAG_VOID, is_pointer = False\<rparr>"

definition activate_signal :: gi_signal_info where
  "activate_signal =
     \<lparr>signal_name = ''activate'',
      callable_args = [\<lparr>arg_name = ''x'', arg_type = int32_type\<rparr>],
      return_type = void_type\<rparr>"

definition compute_signal :: gi_signal_info where
  "compute_signal =
     \<lparr>signal_name = ''compute'', callable_args = [], return_type = int32_type\<rparr>"

definition sample_repository :: "gtype \<Rightarrow> gi_base_info option" where
  "sample_repository t =
     (if t = 1 then Some \<lparr>info_type = GI_INFO_TYPE_OBJECT, signals = [activate_signal]\<rparr>
      else if t = 2 then Some \<lparr>info_type = GI_INFO_TYPE_INTERFACE, signals = [compute_signal]\<rparr>
      else if t = 3 then Some \<lparr>info_type = GI_INFO_TYPE_STRUCT, signals = []\<rparr>
      else None)"

definition sample_env :: env where
  "sample_env =
     \<lparr>irepository = sample_repository,
      from_g_value = (\<lambda>v t. Some (JsNumber (g_data v))),
      to_g_value = (\<lambda>r t slot. case r of JsNumber n \<Rightarrow> (True, slot\<lparr>g_data := n\<rparr>)
                                        | _ \<Rightarrow> (False, slot)),
      js_call = (\<lambda>f receiver argv. if f = 0 then Some JsUndefined
                                    else if f = 1 then Some (JsNumber 7)
                                    else Some (JsString ''seven'')),
      global_object = 0\<rparr>"

definition empty_state :: state where
  "empty_state = \<lparr>held_infos = [], closures = [], persistents = [], trace = []\<rparr>"

definition sample_closure :: "js_function \<Rightarrow> gi_signal_info \<Rightarrow> gir_signal_closure" where
  "sample_closure cb sig =
     \<lparr>marshal = Some Closure_marshal, finalize_notifiers = [Finalize_handler],
      callback = cb, signal_info = sig\<rparr>"

definition int_gvalue :: "int \<Rightarrow> gvalue" where
  "int_gvalue n = \<lparr>g_type = 24, g_data = n\<rparr>"

lemmas sample_defs =
  sample_env_def sample_repository_def sample_closure_def activate_signal_def
  compute_signal_def int32_type_def void_type_def int_gvalue_def empty_state_def
  conversions_def converted_def

section \<open>The resolver\<close>

lemma get_signal_result:
  "get_signal e t name st =
     ((case irepository e t of
         None \<Rightarrow> None
       | Some b \<Rightarrow>
           if GI_IS_OBJECT_INFO b \<or> GI_IS_INTERFACE_INFO b
           then find (\<lambda>s. signal_name s = name) (signals b) else None),
      (case irepository e t of
         None \<Rightarrow> st
       | Some b \<Rightarrow>
           if GI_IS_OBJECT_INFO b \<or> GI_IS_INTERFACE_INFO b
           then (case find (\<lambda>s. signal_name s = name) (signals b) of
                   None \<Rightarrow> st
                 | Some s \<Rightarrow> st\<lparr>held_infos := SignalInfo s # held_infos st\<rparr>)
           else st))"
  by (simp add: get_signal_def g_irepository_find_by_gtype_def
        g_object_info_find_signal_def g_interface_info_find_signal_def find_signal_def
        g_base_info_unref_def split: option.splits)

text \<open>
  C2. \<open>get_signal\<close> returns the first entry of that name in the type's signal table when
  the repository has an entry for the type and the entry is an object or an interface;
  it returns nothing when the entry is absent, of another variant, or has no signal of
  that name. It is total and reports nothing through the error channel.
\<close>

theorem get_signal_resolves:
  "fst (get_signal e t name st) =
     (case irepository e t of
        None \<Rightarrow> None
      | Some b \<Rightarrow>
          if info_type b = GI_INFO_TYPE_OBJECT \<or> info_type b = GI_INFO_TYPE_INTERFACE
          then find (\<lambda>s. signal_name s = name) (signals b)
          else None)
   \<and> trace (snd (get_signal e t name st)) = trace st"
  by (simp add: get_signal_result split: option.splits)

theorem get_signal_resolves_witness:
  "fst (get_signal sample_env 1 ''activate'' empty_state) = Some activate_signal
   \<and> fst (get_signal sample_env 2 ''compute'' empty_state) = Some compute_signal
   \<and> fst (get_signal sample_env 1 ''compute'' empty_state) = None
   \<and> fst (get_signal sample_env 3 ''activate'' empty_state) = None
   \<and> fst (get_signal sample_env 4 ''activate'' empty_state) = None"
  using get_signal_resolves [of sample_env 1 "''activate''" empty_state]
    get_signal_resolves [of sample_env 2 "''compute''" empty_state]
    get_signal_resolves [of sample_env 1 "''compute''" empty_state]
    get_signal_resolves [of sample_env 3 "''activate''" empty_state]
    get_signal_resolves [of sample_env 4 "''activate''" empty_state]
  by (simp add: sample_env_def sample_repository_def activate_signal_def compute_signal_def)

section \<open>Construction\<close>

text \<open>
  C3. When the resolution finds nothing, \<open>create\<close> returns no closure and the state is
  the one it started from: no closure storage, no persistent handle, no introspection
  reference held, nothing reported.
\<close>

theorem create_failure_changes_nothing:
  "fst (get_signal e t name st) = None \<Longrightarrow> create e inst t name cb st = (None, st)"
  by (auto simp: create_def get_signal_result split: option.splits if_splits)

theorem create_failure_changes_nothing_witness:
  "fst (get_signal sample_env 1 ''compute'' empty_state) = None
   \<and> create sample_env () 1 ''compute'' 5 empty_state = (None, empty_state)"
proof -
  have h: "fst (get_signal sample_env 1 ''compute'' empty_state) = None"
    by (simp add: get_signal_result sample_env_def sample_repository_def
          activate_signal_def)
  from create_failure_changes_nothing [OF h, of "()" 5] h show ?thesis by simp
qed

text \<open>
  C10. The outcome of \<open>create\<close> (the closure or its absence, and the state) is the same
  for any two instances, of whatever type: the instance is never read.
\<close>

theorem create_ignores_instance:
  "create e inst1 t name cb st = create e inst2 t name cb st"
  by (simp add: create_def)

theorem create_ignores_instance_witness:
  "create sample_env (0::nat) 1 ''activate'' 5 empty_state =
   create sample_env True 1 ''activate'' 5 empty_state"
  using create_ignores_instance [of sample_env "0::nat" 1 "''activate''" 5 empty_state True]
  by simp

section \<open>The marshaller\<close>

subsection \<open>The argument loop\<close>

lemma marshal_args_done:
  "\<not> i < length pvs \<Longrightarrow> marshal_args e c pvs i argv st = (Inr argv, st)"
  by (simp add: marshal_args.simps [of e c pvs i argv st])

lemma marshal_args_step:
  "i < length pvs \<Longrightarrow> i < length (callable_args (signal_info c)) \<Longrightarrow>
   marshal_args e c pvs i argv st =
     marshal_args e c pvs (Suc i)
       (argv[i := from_g_value e (pvs ! i) (arg_type (callable_args (signal_info c) ! i))])
       (st\<lparr>trace := trace st @
          [FromGValue (pvs ! i) (arg_type (callable_args (signal_info c) ! i))]\<rparr>)"
  by (simp add: marshal_args.simps [of e c pvs i argv st] Let_def
        g_callable_info_get_arg_def g_arg_info_get_type_def g_base_info_unref_def)

lemma marshal_args_overrun_step:
  "i < length pvs \<Longrightarrow> \<not> i < length (callable_args (signal_info c)) \<Longrightarrow>
   marshal_args e c pvs i argv st = (Inl ArrayOverrun, st)"
  by (simp add: marshal_args.simps [of e c pvs i argv st] g_callable_info_get_arg_def)

lemma length_converted:
  "length pvs \<le> length (callable_args (signal_info c)) \<Longrightarrow>
   length (converted e c pvs) = length pvs"
  by (simp add: converted_def)

lemma length_conversions:
  "length pvs \<le> length (callable_args (signal_info c)) \<Longrightarrow>
   length (conversions c pvs) = length pvs"
  by (simp add: conversions_def)

lemma converted_nth:
  "i < length pvs \<Longrightarrow> i < length (callable_args (signal_info c)) \<Longrightarrow>
   converted e c pvs ! i = from_g_value e (pvs ! i) (arg_type (callable_args (signal_info c) ! i))"
  by (simp add: converted_def)

lemma conversions_nth:
  "i < length pvs \<Longrightarrow> i < length (callable_args (signal_info c)) \<Longrightarrow>
   conversions c pvs ! i = FromGValue (pvs ! i) (arg_type (callable_args (signal_info c) ! i))"
  by (simp add: conversions_def)

lemma marshal_args_in_bounds:
  "i \<le> length pvs \<Longrightarrow> length pvs \<le> length (callable_args (signal_info c)) \<Longrightarrow>
   length argv = length pvs \<Longrightarrow>
   marshal_args e c pvs i argv st =
     (Inr (take i argv @ drop i (converted e c pvs)),
      st\<lparr>trace := trace st @ drop i (conversions c pvs)\<rparr>)"
proof (induction "length pvs - i" arbitrary: i argv st)
  case 0
  then have "i = length pvs" by simp
  with 0 show ?case
    by (simp add: marshal_args_done length_converted length_conversions)
next
  case (Suc n)
  let ?a = "callable_args (signal_info c) ! i"
  let ?ev = "FromGValue (pvs ! i) (arg_type ?a)"
  let ?x = "from_g_value e (pvs ! i) (arg_type ?a)"
  let ?st' = "st\<lparr>trace := trace st @ [?ev]\<rparr>"
  from Suc.hyps(2) have lt: "i < length pvs" by simp
  with Suc.prems have ia: "i < length (callable_args (signal_info c))" by simp
  have n: "n = length pvs - Suc i" using Suc.hyps(2) by simp
  have len: "length (argv[i := ?x]) = length pvs" using Suc.prems by simp
  have "marshal_args e c pvs i argv st = marshal_args e c pvs (Suc i) (argv[i := ?x]) ?st'"
    using lt ia by (rule marshal_args_step)
  also have "\<dots> = (Inr (take (Suc i) (argv[i := ?x]) @ drop (Suc i) (converted e c pvs)),
                   ?st'\<lparr>trace := trace ?st' @ drop (Suc i) (conversions c pvs)\<rparr>)"
    using Suc.hyps(1) [OF n _ Suc.prems(2) len] lt by simp
  also have "take (Suc i) (argv[i := ?x]) = take i argv @ [?x]"
    using lt Suc.prems(3) by (simp add: take_Suc_conv_app_nth)
  also have "(take i argv @ [?x]) @ drop (Suc i) (converted e c pvs)
           = take i argv @ drop i (converted e c pvs)"
    using lt ia Suc.prems(2)
    by (simp add: Cons_nth_drop_Suc [symmetric] length_converted converted_nth)
  also have "?st'\<lparr>trace := trace ?st' @ drop (Suc i) (conversions c pvs)\<rparr>
           = st\<lparr>trace := trace st @ drop i (conversions c pvs)\<rparr>"
    using lt ia Suc.prems(2)
    by (simp add: Cons_nth_drop_Suc [symmetric] length_conversions conversions_nth)
  finally show ?case .
qed

lemma marshal_args_overrun:
  "i \<le> length (callable_args (signal_info c)) \<Longrightarrow>
   length (callable_args (signal_info c)) < length pvs \<Longrightarrow>
   fst (marshal_args e c pvs i argv st) = Inl ArrayOverrun"
proof (induction "length (callable_args (signal_info c)) - i" arbitrary: i argv st)
  case 0
  then show ?case by (simp add: marshal_args_overrun_step)
next
  case (Suc n)
  then have ia: "i < length (callable_args (signal_info c))" and lt: "i < length pvs"
    by simp_all
  have n: "n = length (callable_args (signal_info c)) - Suc i" using Suc.hyps(2) by simp
  show ?case
    using Suc.hyps(1) [OF n _ Suc.prems(2)] ia
    by (simp add: marshal_args_step [OF lt ia])
qed

lemma closure_marshal_in_bounds:
  "length pvs \<le> length (callable_args (signal_info c)) \<Longrightarrow>
   marshal_args e c pvs 0 (replicate (length pvs) None) st =
     (Inr (converted e c pvs), st\<lparr>trace := trace st @ conversions c pvs\<rparr>)"
  using marshal_args_in_bounds [of 0 pvs c "replicate (length pvs) None" e st] by simp

lemma receivers_append: "receivers (xs @ ys) = receivers xs @ receivers ys"
  by (induction xs rule: receivers.induct) simp_all

lemma marshal_args_receivers:
  "receivers (trace (snd (marshal_args e c pvs i argv st))) = receivers (trace st)"
proof (induction "length pvs - i" arbitrary: i argv st)
  case 0
  then show ?case by (simp add: marshal_args_done)
next
  case (Suc n)
  then have lt: "i < length pvs" and n: "n = length pvs - Suc i" by simp_all
  show ?case
  proof (cases "i < length (callable_args (signal_info c))")
    case True
    show ?thesis
      by (simp add: marshal_args_step [OF lt True] Suc.hyps(1) [OF n] receivers_append)
  next
    case False
    show ?thesis by (simp add: marshal_args_overrun_step [OF lt False])
  qed
qed

subsection \<open>Invocation\<close>

text \<open>
  C1. A marshal call given exactly as many native values as the signal declares
  parameters adds to the trace, in this order: the conversion of each native value with
  the parameter type at the same position, one invocation of the callback with the
  converted values in the same positions, and then nothing but events of the return
  phase. The argument list has one entry per native value.
\<close>

theorem closure_marshal_calls_once_in_order:
  assumes "length param_values = length (callable_args (signal_info c))"
  shows "\<exists>rest.
           trace (snd (closure_marshal e c return_value param_values st)) =
             trace st @ conversions c param_values
               @ [Call (callback c) (JsObject (global_object e)) (converted e c param_values)] @ rest
           \<and> list_all return_phase rest
           \<and> length (converted e c param_values) = length param_values
           \<and> (\<forall>i<length param_values.
                 converted e c param_values ! i =
                   from_g_value e (param_values ! i)
                     (arg_type (callable_args (signal_info c) ! i)))"
proof -
  from assms have le: "length param_values \<le> length (callable_args (signal_info c))"
    by simp
  have "\<exists>rest. trace (snd (closure_marshal e c return_value param_values st)) =
             trace st @ conversions c param_values
               @ [Call (callback c) (JsObject (global_object e)) (converted e c param_values)] @ rest
           \<and> list_all return_phase rest"
    by (simp add: closure_marshal_def closure_marshal_in_bounds [OF le] Let_def
          split: option.splits prod.splits)
  with le show ?thesis
    by (auto simp: length_converted converted_nth)
qed

theorem closure_marshal_calls_once_in_order_witness:
  "length [int_gvalue 42] = length (callable_args (signal_info (sample_closure 0 activate_signal)))
   \<and> trace (snd (closure_marshal sample_env (sample_closure 0 activate_signal) None
                  [int_gvalue 42] empty_state)) =
       [FromGValue (int_gvalue 42) int32_type, Call 0 (JsObject 0) [Some (JsNumber 42)]]"
  using closure_marshal_calls_once_in_order
    [of "[int_gvalue 42]" "sample_closure 0 activate_signal" sample_env None empty_state]
  by (simp add: closure_marshal_def marshal_args_step marshal_args_done sample_defs)

text \<open>
  C9. Every invocation a marshal call makes has the current context's global object as
  its receiver: an object that is the same for every closure, instance and emission,
  and not the empty binding. There is one invocation when no descriptor lookup is out of
  bounds, and none otherwise.
\<close>

theorem closure_marshal_receiver_is_global:
  "receivers (trace (snd (closure_marshal e c return_value param_values st))) =
     receivers (trace st) @
       (if length param_values \<le> length (callable_args (signal_info c))
        then [JsObject (global_object e)] else [])
   \<and> \<not> empty_receiver (JsObject (global_object e))"
proof (cases "length param_values \<le> length (callable_args (signal_info c))")
  case True
  have "receivers (trace st @ conversions c param_values) = receivers (trace st)"
    using marshal_args_receivers
      [of e c param_values 0 "replicate (length param_values) None" st]
    by (simp add: closure_marshal_in_bounds [OF True])
  then show ?thesis
    using True
    by (simp add: closure_marshal_def closure_marshal_in_bounds [OF True] Let_def
          receivers_append empty_receiver_def split: option.splits prod.splits)
next
  case False
  then have over: "length (callable_args (signal_info c)) < length param_values" by simp
  obtain r st1 where m: "marshal_args e c param_values 0
      (replicate (length param_values) None) st = (r, st1)"
    by (cases "marshal_args e c param_values 0 (replicate (length param_values) None) st")
  from marshal_args_overrun [OF _ over, of 0 e "replicate (length param_values) None" st] m
  have r: "r = Inl ArrayOverrun" by simp
  from marshal_args_receivers
      [of e c param_values 0 "replicate (length param_values) None" st] m
  have "receivers (trace st1) = receivers (trace st)" by simp
  with False m r show ?thesis by (simp add: closure_marshal_def empty_receiver_def)
qed

theorem closure_marshal_receiver_is_global_witness:
  "receivers (trace (snd (closure_marshal sample_env (sample_closure 0 activate_signal)
                            None [int_gvalue 42] empty_state))) = [JsObject 0]
   \<and> receivers (trace (snd (closure_marshal sample_env (sample_closure 0 activate_signal)
                            None [int_gvalue 42, int_gvalue 43] empty_state))) = []"
  using closure_marshal_receiver_is_global
    [of sample_env "sample_closure 0 activate_signal" None "[int_gvalue 42]" empty_state]
    closure_marshal_receiver_is_global
    [of sample_env "sample_closure 0 activate_signal" None "[int_gvalue 42, int_gvalue 43]"
       empty_state]
  by (simp add: sample_defs)

text \<open>
  The signal \<open>compute\<close> emitted in the sample environment: the receiver of the one
  invocation is the object 0, the global object, which is not the empty binding.
\<close>

theorem closure_marshal_receiver_counterexample:
  "receivers (trace (snd (closure_marshal sample_env (sample_closure 1 compute_signal)
                            (Some (int_gvalue 0)) [] empty_state))) = [JsObject 0]
   \<and> \<not> empty_receiver (JsObject 0)"
  by (simp add: closure_marshal_def marshal_args_done empty_receiver_def sample_defs)

text \<open>
  C7. A marshal call reaches the out-of-bounds descriptor read exactly when it is
  given more native values than the signal declares parameters. With equally many (or
  fewer) every lookup of the loop is in bounds; with more, nothing stops the loop
  before the read.
\<close>

theorem closure_marshal_overrun_iff:
  "(fst (closure_marshal e c return_value param_values st) = Faulted ArrayOverrun) =
     (length (callable_args (signal_info c)) < length param_values)"
proof (cases "length param_values \<le> length (callable_args (signal_info c))")
  case True
  then show ?thesis
    by (simp add: closure_marshal_def closure_marshal_in_bounds [OF True] Let_def
          split: option.splits prod.splits)
next
  case False
  then have over: "length (callable_args (signal_info c)) < length param_values" by simp
  obtain r st1 where m: "marshal_args e c param_values 0
      (replicate (length param_values) None) st = (r, st1)"
    by (cases "marshal_args e c param_values 0 (replicate (length param_values) None) st")
  from marshal_args_overrun [OF _ over, of 0 e "replicate (length param_values) None" st] m
  have "r = Inl ArrayOverrun" by simp
  with over m show ?thesis by (simp add: closure_marshal_def)
qed

theorem closure_marshal_overrun_iff_witness:
  "fst (closure_marshal sample_env (sample_closure 0 activate_signal) None
          [int_gvalue 42] empty_state) \<noteq> Faulted ArrayOverrun
   \<and> fst (closure_marshal sample_env (sample_closure 0 activate_signal) None
          [int_gvalue 42, int_gvalue 43] empty_state) = Faulted ArrayOverrun"
  using closure_marshal_overrun_iff
    [of sample_env "sample_closure 0 activate_signal" None "[int_gvalue 42]" empty_state]
    closure_marshal_overrun_iff
    [of sample_env "sample_closure 0 activate_signal" None "[int_gvalue 42, int_gvalue 43]"
       empty_state]
  by (simp add: sample_defs)

subsection \<open>The return value\<close>

text \<open>
  C6. When the call gives no value, or gives null or undefined, the marshal call
  returns with the return slot as it was and reports nothing: the trace ends with the
  invocation. This holds whatever the declared return type, non-void included.
\<close>

theorem closure_marshal_no_result_keeps_slot:
  assumes "length param_values \<le> length (callable_args (signal_info c))"
    and "js_call e (callback c) (JsObject (global_object e)) (converted e c param_values)
           \<in> {None, Some JsNull, Some JsUndefined}"
  shows "closure_marshal e c return_value param_values st =
           (Returned return_value,
            st\<lparr>trace := trace st @ conversions c param_values
                  @ [Call (callback c) (JsObject (global_object e)) (converted e c param_values)]\<rparr>)"
  using assms(2)
  by (auto simp: closure_marshal_def closure_marshal_in_bounds [OF assms(1)] Let_def)

theorem closure_marshal_no_result_keeps_slot_witness:
  "\<not> is_void (return_type (signal_info (sample_closure 0 compute_signal)))
   \<and> js_call sample_env 0 (JsObject (global_object sample_env))
        (converted sample_env (sample_closure 0 compute_signal) []) = Some JsUndefined
   \<and> closure_marshal sample_env (sample_closure 0 compute_signal) (Some (int_gvalue 5)) []
        empty_state =
       (Returned (Some (int_gvalue 5)), empty_state\<lparr>trace := [Call 0 (JsObject 0) []]\<rparr>)"
  using closure_marshal_no_result_keeps_slot
    [of "[]" "sample_closure 0 compute_signal" sample_env "Some (int_gvalue 5)" empty_state]
  by (simp add: sample_defs is_void_def)

text \<open>
  C5. When the callback returns a usable value and its conversion to the type of the
  return slot fails, the marshal call reports the error and returns: the report is the
  last event, and the slot holds what the failed conversion left in it.
\<close>

theorem closure_marshal_conversion_failure:
  assumes "length param_values \<le> length (callable_args (signal_info c))"
    and "js_call e (callback c) (JsObject (global_object e)) (converted e c param_values) = Some r"
    and "r \<noteq> JsNull" and "r \<noteq> JsUndefined"
    and "to_g_value e r (g_type slot) slot = (False, slot')"
  shows "closure_marshal e c (Some slot) param_values st =
           (Returned (Some slot'),
            st\<lparr>trace := trace st @ conversions c param_values
                  @ [Call (callback c) (JsObject (global_object e)) (converted e c param_values),
                     ToGValue r (g_type slot),
                     ThrowError ''cannot convert return value of callback to a GI type'']\<rparr>)"
  using assms(2-5)
  by (simp add: closure_marshal_def closure_marshal_in_bounds [OF assms(1)] Let_def)

theorem closure_marshal_conversion_failure_witness:
  "js_call sample_env 2 (JsObject (global_object sample_env))
        (converted sample_env (sample_closure 2 compute_signal) []) = Some (JsString ''seven'')
   \<and> to_g_value sample_env (JsString ''seven'') (g_type (int_gvalue 5)) (int_gvalue 5) =
        (False, int_gvalue 5)
   \<and> closure_marshal sample_env (sample_closure 2 compute_signal) (Some (int_gvalue 5)) []
        empty_state =
       (Returned (Some (int_gvalue 5)),
        empty_state\<lparr>trace :=
          [Call 2 (JsObject 0) [], ToGValue (JsString ''seven'') 24,
           ThrowError ''cannot convert return value of callback to a GI type'']\<rparr>)"
  using closure_marshal_conversion_failure
    [of "[]" "sample_closure 2 compute_signal" sample_env "JsString ''seven''"
       "int_gvalue 5" "int_gvalue 5" empty_state]
  by (simp add: sample_defs)

text \<open>
  A void-returning signal is emitted with no return slot: the pointer is null. Nothing
  is then written anywhere, but a usable callback result takes the call to the read of
  the slot's type through that pointer.
\<close>

lemma closure_marshal_null_slot:
  assumes "length param_values \<le> length (callable_args (signal_info c))"
  shows "fst (closure_marshal e c None param_values st) =
           (case js_call e (callback c) (JsObject (global_object e))
                   (converted e c param_values) of
              None \<Rightarrow> Returned None
            | Some r \<Rightarrow>
                if r = JsNull \<or> r = JsUndefined then Returned None
                else Faulted NullDereference)"
  by (simp add: closure_marshal_def closure_marshal_in_bounds [OF assms] Let_def
        split: option.splits)

text \<open>
  C4. The signal \<open>activate\<close> returns void and is emitted with a null return slot and the
  one native value 42; its callback returns the number 7. The marshal call converts the
  argument, invokes the callback, and then ends in the null dereference: it does not
  return with the slot untouched.
\<close>

theorem closure_marshal_void_null_slot_faults:
  "is_void (return_type (signal_info (sample_closure 1 activate_signal)))
   \<and> closure_marshal sample_env (sample_closure 1 activate_signal) None [int_gvalue 42]
        empty_state =
       (Faulted NullDereference,
        empty_state\<lparr>trace :=
          [FromGValue (int_gvalue 42) int32_type, Call 1 (JsObject 0) [Some (JsNumber 42)]]\<rparr>)"
  by (simp add: closure_marshal_def marshal_args_step marshal_args_done is_void_def
        g_base_info_unref_def sample_defs)

section \<open>Finalization\<close>

text \<open>A closure that \<open>create\<close> returns owns its two resources.\<close>

lemma create_owns:
  "create e inst t name cb st = (Some c, st') \<Longrightarrow> owns c st'"
  by (auto simp: create_def get_signal_result owns_def Let_def split: option.splits if_splits)

text \<open>
  C8. For a closure that owns its two resources, \<open>finalize_handler\<close> gives back exactly
  one reference to the signal descriptor and exactly one persistent handle to the
  callback; it touches nothing else, reports nothing, and has no failing path.
\<close>

theorem finalize_handler_releases_once:
  assumes "owns c st"
  shows "mset (held_infos st) =
           add_mset (SignalInfo (signal_info c)) (mset (held_infos (finalize_handler c st)))
         \<and> mset (persistents st) =
           add_mset (callback c) (mset (persistents (finalize_handler c st)))
         \<and> closures (finalize_handler c st) = closures st
         \<and> trace (finalize_handler c st) = trace st"
  using assms
  by (simp add: owns_def finalize_handler_def g_base_info_unref_def Let_def)

theorem finalize_handler_releases_once_witness:
  "create sample_env () 1 ''activate'' 5 empty_state =
     (Some (sample_closure 5 activate_signal),
      \<lparr>held_infos = [SignalInfo activate_signal],
       closures = [sample_closure 5 activate_signal], persistents = [5], trace = []\<rparr>)
   \<and> owns (sample_closure 5 activate_signal)
       \<lparr>held_infos = [SignalInfo activate_signal],
        closures = [sample_closure 5 activate_signal], persistents = [5], trace = []\<rparr>
   \<and> finalize_handler (sample_closure 5 activate_signal)
       \<lparr>held_infos = [SignalInfo activate_signal],
        closures = [sample_closure 5 activate_signal], persistents = [5], trace = []\<rparr> =
       \<lparr>held_infos = [], closures = [sample_closure 5 activate_signal], persistents = [],
        trace = []\<rparr>"
  using finalize_handler_releases_once
    [of "sample_closure 5 activate_signal"
       "\<lparr>held_infos = [SignalInfo activate_signal],
         closures = [sample_closure 5 activate_signal], persistents = [5], trace = []\<rparr>"]
  by (simp add: create_def get_signal_result owns_def finalize_handler_def
        g_base_info_unref_def Let_def sample_defs)

end
